theory Spec2Isabelle
  imports Complex_Main
begin

section \<open>Symbolic expressions in the variable x\<close>

text \<open>
  The program builds SymPy expressions in the single symbol \<open>x = sp.symbols("x")\<close>.
  An expression is a term over numbers, the symbol, sums, products, integer powers and the
  four elementary functions the templates and their derivatives use. Python floats and
  SymPy numbers are idealised as real numbers.
\<close>

datatype expr =
    Num real
  | X
  | Add expr expr
  | Mul expr expr
  | Pow expr int
  | Exp expr
  | Log expr
  | Sin expr
  | Cos expr

text \<open>
  The value of an expression at a real point. \<open>Log\<close> is read as the real logarithm,
  which is meaningful for a positive argument only (HOL's \<open>ln\<close> is total, the program's
  logarithm is not); \<open>Pow\<close> with an exponent that is not positive is meaningful for a
  non-zero base. \<open>defined_at\<close> says that every logarithm and every such power inside the
  expression is inside its domain at the point.
\<close>

fun eval :: "expr \<Rightarrow> real \<Rightarrow> real" where
  "eval (Num k) t = k"
| "eval X t = t"
| "eval (Add u v) t = eval u t + eval v t"
| "eval (Mul u v) t = eval u t * eval v t"
| "eval (Pow u n) t = power_int (eval u t) n"
| "eval (Exp u) t = exp (eval u t)"
| "eval (Log u) t = ln (eval u t)"
| "eval (Sin u) t = sin (eval u t)"
| "eval (Cos u) t = cos (eval u t)"

fun defined_at :: "expr \<Rightarrow> real \<Rightarrow> bool" where
  "defined_at (Num k) t = True"
| "defined_at X t = True"
| "defined_at (Add u v) t = (defined_at u t \<and> defined_at v t)"
| "defined_at (Mul u v) t = (defined_at u t \<and> defined_at v t)"
| "defined_at (Pow u n) t = (defined_at u t \<and> (n \<le> 0 \<longrightarrow> eval u t \<noteq> 0))"
| "defined_at (Exp u) t = defined_at u t"
| "defined_at (Log u) t = (defined_at u t \<and> 0 < eval u t)"
| "defined_at (Sin u) t = defined_at u t"
| "defined_at (Cos u) t = defined_at u t"

text \<open>\<open>free_x e\<close>: the symbol occurs in the expression (SymPy's \<open>free_symbols\<close> is not empty).\<close>

fun free_x :: "expr \<Rightarrow> bool" where
  "free_x (Num k) = False"
| "free_x X = True"
| "free_x (Add u v) = (free_x u \<or> free_x v)"
| "free_x (Mul u v) = (free_x u \<or> free_x v)"
| "free_x (Pow u n) = free_x u"
| "free_x (Exp u) = free_x u"
| "free_x (Log u) = free_x u"
| "free_x (Sin u) = free_x u"
| "free_x (Cos u) = free_x u"

subsection \<open>The arithmetic operators of SymPy\<close>

text \<open>
  Python's \<open>*\<close>, \<open>+\<close> and \<open>**\<close> on SymPy objects build evaluated terms: numbers are
  combined, a zero factor gives zero, a zero summand and a unit factor disappear, and the
  numeric coefficient of a product is kept in front. \<open>mul\<close>, \<open>add\<close> and \<open>pow\<close> do that
  much of SymPy's automatic evaluation, which is all that the four templates and their first
  two derivatives exercise. Numbers are real here, so the integer 1 and the float 1.0 are
  one number; SymPy keeps a float factor 1.0, which changes neither the value of the product
  nor whether the symbol occurs in it.
\<close>

fun as_num :: "expr \<Rightarrow> real option" where
  "as_num (Num k) = Some k"
| "as_num u = None"

text \<open>\<open>scale j u\<close> is the product of the number \<open>j\<close> and the expression \<open>u\<close>.\<close>

fun scale :: "real \<Rightarrow> expr \<Rightarrow> expr" where
  "scale j (Num k) = Num (j * k)"
| "scale j (Mul (Num k) u) = scale (j * k) u"
| "scale j u = (if j = 0 then Num 0 else if j = 1 then u else Mul (Num j) u)"

definition mul :: "expr \<Rightarrow> expr \<Rightarrow> expr" where
  "mul u v =
     (case as_num u of
        Some j \<Rightarrow> scale j v
      | None \<Rightarrow> (case as_num v of Some k \<Rightarrow> scale k u | None \<Rightarrow> Mul u v))"

definition add :: "expr \<Rightarrow> expr \<Rightarrow> expr" where
  "add u v =
     (case as_num u of
        Some j \<Rightarrow>
          (case as_num v of
             Some k \<Rightarrow> Num (j + k)
           | None \<Rightarrow> if j = 0 then v else Add v (Num j))
      | None \<Rightarrow>
          (case as_num v of
             Some k \<Rightarrow> if k = 0 then u else Add u (Num k)
           | None \<Rightarrow> Add u v))"

definition pow :: "expr \<Rightarrow> int \<Rightarrow> expr" where
  "pow u n = (if n = 0 then Num 1 else if n = 1 then u else Pow u n)"

subsection \<open>Differentiation\<close>

text \<open>
  Modelled from the spec: \<open>sp.diff(expr, x)\<close> is SymPy's, not the repository's. The spec
  (4.2) describes it as exact symbolic differentiation with respect to the single free
  variable by the standard rules of calculus (sum, product and chain rule); the results are
  built with SymPy's evaluating operators.
\<close>

fun diff :: "expr \<Rightarrow> expr" where
  "diff (Num k) = Num 0"
| "diff X = Num 1"
| "diff (Add u v) = add (diff u) (diff v)"
| "diff (Mul u v) = add (mul (diff u) v) (mul u (diff v))"
| "diff (Pow u n) = mul (mul (Num (of_int n)) (pow u (n - 1))) (diff u)"
| "diff (Exp u) = mul (Exp u) (diff u)"
| "diff (Log u) = mul (pow u (- 1)) (diff u)"
| "diff (Sin u) = mul (Cos u) (diff u)"
| "diff (Cos u) = mul (mul (Num (- 1)) (Sin u)) (diff u)"

section \<open>Model catalog\<close>

text \<open>
  The country names end in a flag, two regional indicator symbols. A Python string is a
  sequence of code points; here it is the sequence of the bytes of its UTF-8 encoding, which
  identifies the string.
\<close>

definition Spain :: string where
  "Spain = ''Spain '' @ [CHR 0xF0, CHR 0x9F, CHR 0x87, CHR 0xAA, CHR 0xF0, CHR 0x9F, CHR 0x87, CHR 0xB8]"

definition Italy :: string where
  "Italy = ''Italy '' @ [CHR 0xF0, CHR 0x9F, CHR 0x87, CHR 0xAE, CHR 0xF0, CHR 0x9F, CHR 0x87, CHR 0xB9]"

definition United_States :: string where
  "United_States =
     ''United States '' @ [CHR 0xF0, CHR 0x9F, CHR 0x87, CHR 0xBA, CHR 0xF0, CHR 0x9F, CHR 0x87, CHR 0xB8]"

definition Mexico :: string where
  "Mexico = ''Mexico '' @ [CHR 0xF0, CHR 0x9F, CHR 0x87, CHR 0xB2, CHR 0xF0, CHR 0x9F, CHR 0x87, CHR 0xBD]"

definition Japan :: string where
  "Japan = ''Japan '' @ [CHR 0xF0, CHR 0x9F, CHR 0x87, CHR 0xAF, CHR 0xF0, CHR 0x9F, CHR 0x87, CHR 0xB5]"

definition Brazil :: string where
  "Brazil = ''Brazil '' @ [CHR 0xF0, CHR 0x9F, CHR 0x87, CHR 0xA7, CHR 0xF0, CHR 0x9F, CHR 0x87, CHR 0xB7]"

definition countries :: "string list" where
  "countries = [Spain, Italy, United_States, Mexico, Japan, Brazil]"

text \<open>
  A country's parameters are the dictionary \<open>{"a": .., "b": .., "c": ..}\<close>; it always has
  exactly these three keys, so it is a record of the three coefficients.
\<close>

record params =
  coeff_a :: real
  coeff_b :: real
  coeff_c :: real

text \<open>The dictionary \<open>country_params\<close>, a module-level constant that nothing assigns to.\<close>

definition country_params :: "string \<rightharpoonup> params" where
  "country_params = map_of
     [(Spain, \<lparr>coeff_a = 1.2, coeff_b = 0.45, coeff_c = 3\<rparr>),
      (Italy, \<lparr>coeff_a = 1.0, coeff_b = 0.30, coeff_c = 4.5\<rparr>),
      (United_States, \<lparr>coeff_a = 1.5, coeff_b = 0.35, coeff_c = 6\<rparr>),
      (Mexico, \<lparr>coeff_a = 1.1, coeff_b = 0.50, coeff_c = 2.5\<rparr>),
      (Japan, \<lparr>coeff_a = 0.9, coeff_b = 0.25, coeff_c = 5\<rparr>),
      (Brazil, \<lparr>coeff_a = 1.3, coeff_b = 0.55, coeff_c = 3\<rparr>)]"

text \<open>The exceptions that the modelled statements raise.\<close>

datatype exn = KeyError | ValueError | TypeError | NotImplementedError

text \<open>\<open>country_params[country]\<close>: subscripting a dictionary with a missing key raises \<open>KeyError\<close>.\<close>

definition lookup :: "string \<Rightarrow> exn + params" where
  "lookup country = (case country_params country of None \<Rightarrow> Inl KeyError | Some ps \<Rightarrow> Inr ps)"

text \<open>
  \<open>build_function\<close> reads the selected function type (a global of the script) and returns
  the instantiated template; when no branch matches, the Python function falls off its end
  and returns \<open>None\<close>.
\<close>

definition build_function :: "string \<Rightarrow> params \<Rightarrow> expr option" where
  "build_function function_type ps =
     (let a = coeff_a ps; b = coeff_b ps; c = coeff_c ps in
      if function_type = ''Exponential (Market Growth)'' then
        Some (add (mul (Num a) (Exp (mul (Num b) X))) (Num c))
      else if function_type = ''Logarithmic (Diminishing Returns)'' then
        Some (add (mul (Num a) (Log (mul (Num b) X))) (Num c))
      else if function_type = ''Polynomial (Cost Structure)'' then
        Some (add (add (mul (Num a) (pow X 2)) (mul (Num b) X)) (Num c))
      else if function_type = ''Trigonometric (Seasonality)'' then
        Some (add (mul (Num a) (Sin (mul (Num b) X))) (Num c))
      else None)"

text \<open>Lines 108 and 109 of \<open>plot_country\<close>: the first and the second derivative.\<close>

definition derivative_pair :: "expr \<Rightarrow> expr \<times> expr" where
  "derivative_pair f = (let f_prime = diff f; f_double = diff f_prime in (f_prime, f_double))"

section \<open>Sampling, numeric evaluation and the figure\<close>

text \<open>
  The sidebar widgets deliver the inputs of one run of the script: the comparison checkbox,
  the primary country, the comparison country (asked for only in comparison mode), the
  function type and the two ends of the time range.
\<close>

record inputs =
  comparison_mode :: bool
  country_1 :: string
  comparison_country :: string
  function_type :: string
  xmin :: real
  xmax :: real

text \<open>\<open>country_2\<close> is \<open>None\<close> unless comparison mode is on (lines 49 to 51).\<close>

definition country_2 :: "inputs \<Rightarrow> string option" where
  "country_2 inp = (if comparison_mode inp then Some (comparison_country inp) else None)"

text \<open>
  \<open>np.linspace(start, stop, num)\<close> with its default \<open>endpoint=True\<close>: the samples are
  \<open>start + i * step\<close> for \<open>i\<close> from 0 to \<open>num - 1\<close>, with \<open>step = (stop - start) / (num - 1)\<close>,
  and the last sample is then set to \<open>stop\<close>. Floating-point rounding is left out.
\<close>

definition linspace :: "real \<Rightarrow> real \<Rightarrow> nat \<Rightarrow> real list" where
  "linspace start stop num =
     (let step = (stop - start) / real (num - 1);
          y = map (\<lambda>i. start + real i * step) [0..<num]
      in if 1 < num then y[num - 1 := stop] else y)"

definition x_vals :: "inputs \<Rightarrow> real list" where
  "x_vals inp = linspace (xmin inp) (xmax inp) 1000"

text \<open>
  Modelled from the spec: NumPy is not the repository's. A sample value is a finite
  number, \<open>nan\<close>, \<open>inf\<close> or \<open>-inf\<close>. Spec 4.2: evaluating the logarithm at or below the
  boundary of its domain produces a non-finite result (\<open>nan\<close> or an infinity) rather than
  raising; NumPy warns and gives \<open>-inf\<close> at zero and \<open>nan\<close> below it. On non-finite
  arguments the other operations follow IEEE 754 (\<open>inf - inf\<close> and \<open>0 * inf\<close> are \<open>nan\<close>,
  \<open>nan\<close> propagates, a negative power of zero is \<open>inf\<close>). Rounding, overflow and the sign of
  zero are left out: finite values are real numbers.
\<close>

datatype npfloat = Finite real | PosInf | NegInf | NaN

definition is_finite :: "npfloat \<Rightarrow> bool" where
  "is_finite u = (case u of Finite a \<Rightarrow> True | PosInf \<Rightarrow> False | NegInf \<Rightarrow> False | NaN \<Rightarrow> False)"

definition np_neg :: "npfloat \<Rightarrow> npfloat" where
  "np_neg u = (case u of Finite a \<Rightarrow> Finite (- a) | PosInf \<Rightarrow> NegInf | NegInf \<Rightarrow> PosInf | NaN \<Rightarrow> NaN)"

definition np_add :: "npfloat \<Rightarrow> npfloat \<Rightarrow> npfloat" where
  "np_add u v =
     (case u of
        Finite a \<Rightarrow> (case v of Finite b \<Rightarrow> Finite (a + b) | PosInf \<Rightarrow> PosInf | NegInf \<Rightarrow> NegInf | NaN \<Rightarrow> NaN)
      | PosInf \<Rightarrow> (case v of Finite b \<Rightarrow> PosInf | PosInf \<Rightarrow> PosInf | NegInf \<Rightarrow> NaN | NaN \<Rightarrow> NaN)
      | NegInf \<Rightarrow> (case v of Finite b \<Rightarrow> NegInf | PosInf \<Rightarrow> NaN | NegInf \<Rightarrow> NegInf | NaN \<Rightarrow> NaN)
      | NaN \<Rightarrow> NaN)"

text \<open>An infinity times a finite number.\<close>

definition inf_times :: "npfloat \<Rightarrow> real \<Rightarrow> npfloat" where
  "inf_times u a = (if a = 0 then NaN else if 0 < a then u else np_neg u)"

definition np_mul :: "npfloat \<Rightarrow> npfloat \<Rightarrow> npfloat" where
  "np_mul u v =
     (case u of
        Finite a \<Rightarrow>
          (case v of Finite b \<Rightarrow> Finite (a * b) | PosInf \<Rightarrow> inf_times PosInf a
           | NegInf \<Rightarrow> inf_times NegInf a | NaN \<Rightarrow> NaN)
      | PosInf \<Rightarrow>
          (case v of Finite b \<Rightarrow> inf_times PosInf b | PosInf \<Rightarrow> PosInf | NegInf \<Rightarrow> NegInf | NaN \<Rightarrow> NaN)
      | NegInf \<Rightarrow>
          (case v of Finite b \<Rightarrow> inf_times NegInf b | PosInf \<Rightarrow> NegInf | NegInf \<Rightarrow> PosInf | NaN \<Rightarrow> NaN)
      | NaN \<Rightarrow> NaN)"

definition np_pow :: "npfloat \<Rightarrow> int \<Rightarrow> npfloat" where
  "np_pow u n =
     (case u of
        Finite a \<Rightarrow> if a = 0 \<and> n < 0 then PosInf else Finite (power_int a n)
      | PosInf \<Rightarrow> if n = 0 then Finite 1 else if 0 < n then PosInf else Finite 0
      | NegInf \<Rightarrow> if n = 0 then Finite 1 else if n < 0 then Finite 0
                  else if even n then PosInf else NegInf
      | NaN \<Rightarrow> if n = 0 then Finite 1 else NaN)"

definition np_exp :: "npfloat \<Rightarrow> npfloat" where
  "np_exp u = (case u of Finite a \<Rightarrow> Finite (exp a) | PosInf \<Rightarrow> PosInf | NegInf \<Rightarrow> Finite 0 | NaN \<Rightarrow> NaN)"

definition np_log :: "npfloat \<Rightarrow> npfloat" where
  "np_log u =
     (case u of
        Finite a \<Rightarrow> if 0 < a then Finite (ln a) else if a = 0 then NegInf else NaN
      | PosInf \<Rightarrow> PosInf
      | NegInf \<Rightarrow> NaN
      | NaN \<Rightarrow> NaN)"

definition np_sin :: "npfloat \<Rightarrow> npfloat" where
  "np_sin u = (case u of Finite a \<Rightarrow> Finite (sin a) | PosInf \<Rightarrow> NaN | NegInf \<Rightarrow> NaN | NaN \<Rightarrow> NaN)"

definition np_cos :: "npfloat \<Rightarrow> npfloat" where
  "np_cos u = (case u of Finite a \<Rightarrow> Finite (cos a) | PosInf \<Rightarrow> NaN | NegInf \<Rightarrow> NaN | NaN \<Rightarrow> NaN)"

text \<open>The value that the NumPy code of an expression computes at a (finite) sample.\<close>

fun np_eval :: "expr \<Rightarrow> real \<Rightarrow> npfloat" where
  "np_eval (Num k) t = Finite k"
| "np_eval X t = Finite t"
| "np_eval (Add u v) t = np_add (np_eval u t) (np_eval v t)"
| "np_eval (Mul u v) t = np_mul (np_eval u t) (np_eval v t)"
| "np_eval (Pow u n) t = np_pow (np_eval u t) n"
| "np_eval (Exp u) t = np_exp (np_eval u t)"
| "np_eval (Log u) t = np_log (np_eval u t)"
| "np_eval (Sin u) t = np_sin (np_eval u t)"
| "np_eval (Cos u) t = np_cos (np_eval u t)"

text \<open>
  \<open>sp.lambdify(x, e, "numpy")\<close> turns the printed expression into a Python function of
  \<open>x\<close>. Applied to an array, NumPy's elementwise operations give an array with one value per
  sample. An expression in which \<open>x\<close> does not occur is printed as a number, and the
  function returns that number whatever its argument is: a scalar, not an array.
\<close>

datatype numeric = Scalar npfloat | Array "npfloat list"

definition lambdify :: "expr \<Rightarrow> real list \<Rightarrow> numeric" where
  "lambdify e xs = (if free_x e then Array (map (np_eval e) xs) else Scalar (np_eval e 0))"

text \<open>
  What an axes holds: the curves drawn by \<open>plot\<close> (x data, y data, line style, label) and
  the vertical lines drawn by \<open>axvline\<close> (position, line style, alpha).
\<close>

datatype artist =
    Line2D "real list" "npfloat list" string string
  | VLine real string real

record figure =
  axes_0 :: "artist list"
  axes_1 :: "artist list"
  axes_2 :: "artist list"

text \<open>\<open>plt.subplots(3, 1, ...)\<close>: three empty axes.\<close>

definition subplots :: figure where
  "subplots = \<lparr>axes_0 = [], axes_1 = [], axes_2 = []\<rparr>"

text \<open>
  \<open>ax.plot(xs, y, linestyle=.., label=..)\<close>: Matplotlib makes both arguments at least
  one-dimensional and raises \<open>ValueError\<close> ("x and y must have same first dimension") when
  their lengths differ.
\<close>

definition plot :: "real list \<Rightarrow> numeric \<Rightarrow> string \<Rightarrow> string \<Rightarrow> artist list \<Rightarrow> exn + artist list" where
  "plot xs y linestyle label ax =
     (let ys = (case y of Array vs \<Rightarrow> vs | Scalar v \<Rightarrow> [v]) in
      if length xs = length ys then Inr (ax @ [Line2D xs ys linestyle label])
      else Inl ValueError)"

section \<open>Critical and inflection points\<close>

text \<open>
  \<open>sp.solve(e, x)\<close> is SymPy's: it raises or returns a list of roots. The script asks two
  things of a root \<open>cp\<close>: \<open>cp.is_real\<close>, which is \<open>True\<close>, \<open>False\<close> or \<open>None\<close> (undecided),
  and \<open>float(cp)\<close>; either may raise. A root is the record of the two answers.
\<close>

record root =
  is_real :: "exn + bool option"
  to_float :: "exn + real"

type_synonym solver = "expr \<Rightarrow> exn + root list"

text \<open>
  The two \<open>axvline\<close> calls for a critical point (lines 124 and 125) and for an inflection
  point (lines 134 and 135).
\<close>

definition axvline_critical :: "real \<Rightarrow> figure \<Rightarrow> figure" where
  "axvline_critical v fig =
     fig\<lparr>axes_0 := axes_0 fig @ [VLine v ''--'' 0.6], axes_1 := axes_1 fig @ [VLine v ''--'' 0.6]\<rparr>"

definition axvline_inflection :: "real \<Rightarrow> figure \<Rightarrow> figure" where
  "axvline_inflection v fig =
     fig\<lparr>axes_0 := axes_0 fig @ [VLine v '':'' 0.7], axes_2 := axes_2 fig @ [VLine v '':'' 0.7]\<rparr>"

text \<open>
  The \<open>for\<close> loop over the roots. The figure is mutated in place, so when an exception
  leaves the loop the markers drawn so far are still there: the loop returns the figure
  together with the exception, if any. \<open>cp.is_real and ...\<close> goes on to \<open>float(cp)\<close> only
  when \<open>is_real\<close> is \<open>True\<close>.
\<close>

fun for_roots :: "(real \<Rightarrow> figure \<Rightarrow> figure) \<Rightarrow> real \<Rightarrow> real \<Rightarrow> root list \<Rightarrow> figure \<Rightarrow> figure \<times> exn option" where
  "for_roots axvline lo hi [] fig = (fig, None)"
| "for_roots axvline lo hi (cp # cps) fig =
     (case is_real cp of
        Inl e \<Rightarrow> (fig, Some e)
      | Inr answer \<Rightarrow>
          if answer = Some True then
            (case to_float cp of
               Inl e \<Rightarrow> (fig, Some e)
             | Inr v \<Rightarrow>
                 if lo \<le> v \<and> v \<le> hi then for_roots axvline lo hi cps (axvline v fig)
                 else for_roots axvline lo hi cps fig)
          else for_roots axvline lo hi cps fig)"

text \<open>The body of the \<open>try\<close> statement, given what \<open>sp.solve\<close> did.\<close>

definition try_roots :: "(real \<Rightarrow> figure \<Rightarrow> figure) \<Rightarrow> exn + root list \<Rightarrow> real \<Rightarrow> real \<Rightarrow> figure \<Rightarrow> figure \<times> exn option" where
  "try_roots axvline solved lo hi fig =
     (case solved of Inl e \<Rightarrow> (fig, Some e) | Inr cps \<Rightarrow> for_roots axvline lo hi cps fig)"

text \<open>
  \<open>except Exception: pass\<close>: every exception of \<open>exn\<close> is an \<open>Exception\<close>, so the handler
  catches it and the statement completes normally, with the figure as it is by then.
\<close>

definition except_pass :: "figure \<times> exn option \<Rightarrow> exn + figure" where
  "except_pass r = (case snd r of None \<Rightarrow> Inr (fst r) | Some e \<Rightarrow> Inr (fst r))"

text \<open>Lines 120 to 127 and lines 130 to 137.\<close>

definition mark_critical_points :: "exn + root list \<Rightarrow> real \<Rightarrow> real \<Rightarrow> figure \<Rightarrow> exn + figure" where
  "mark_critical_points solved lo hi fig = except_pass (try_roots axvline_critical solved lo hi fig)"

definition mark_inflection_points :: "exn + root list \<Rightarrow> real \<Rightarrow> real \<Rightarrow> figure \<Rightarrow> exn + figure" where
  "mark_inflection_points solved lo hi fig = except_pass (try_roots axvline_inflection solved lo hi fig)"

section \<open>The pipeline\<close>

text \<open>
  \<open>plot_country\<close>, with the globals it reads (the inputs and SymPy's solver) as
  parameters. An exception that is not caught ends the script, so the figure is lost with
  it. When \<open>build_function\<close> returns \<open>None\<close>, \<open>sp.diff(None, x)\<close> raises; the model
  reports that as \<open>ValueError\<close>. The function type comes from a select box that offers the
  four strings of \<open>build_function\<close> only, so this branch is not reached from the interface.
\<close>

definition plot_country :: "inputs \<Rightarrow> solver \<Rightarrow> string \<Rightarrow> string \<Rightarrow> figure \<Rightarrow> exn + figure" where
  "plot_country inp solve country linestyle fig =
     (case lookup country of
        Inl e \<Rightarrow> Inl e
      | Inr ps \<Rightarrow>
     (case build_function (function_type inp) ps of
        None \<Rightarrow> Inl ValueError
      | Some f \<Rightarrow>
     (let (f_prime, f_double) = derivative_pair f;
          f_num = lambdify f;
          fp_num = lambdify f_prime;
          fpp_num = lambdify f_double
      in
     (case plot (x_vals inp) (f_num (x_vals inp)) linestyle country (axes_0 fig) of
        Inl e \<Rightarrow> Inl e
      | Inr ax0 \<Rightarrow>
     (case plot (x_vals inp) (fp_num (x_vals inp)) linestyle country (axes_1 fig) of
        Inl e \<Rightarrow> Inl e
      | Inr ax1 \<Rightarrow>
     (case plot (x_vals inp) (fpp_num (x_vals inp)) linestyle country (axes_2 fig) of
        Inl e \<Rightarrow> Inl e
      | Inr ax2 \<Rightarrow>
     (case mark_critical_points (solve f_prime) (xmin inp) (xmax inp)
             \<lparr>axes_0 = ax0, axes_1 = ax1, axes_2 = ax2\<rparr> of
        Inl e \<Rightarrow> Inl e
      | Inr fig1 \<Rightarrow> mark_inflection_points (solve f_double) (xmin inp) (xmax inp) fig1)))))))"

text \<open>Lines 139 to 144: the primary country, then the comparison country behind its guard.\<close>

definition script :: "inputs \<Rightarrow> solver \<Rightarrow> exn + figure" where
  "script inp solve =
     (case plot_country inp solve (country_1 inp) ''-'' subplots of
        Inl e \<Rightarrow> Inl e
      | Inr fig \<Rightarrow>
          if comparison_mode inp \<and> country_2 inp \<noteq> Some (country_1 inp) then
            (case country_2 inp of
               None \<Rightarrow> Inl KeyError
             | Some country \<Rightarrow> plot_country inp solve country ''--'' fig)
          else Inr fig)"

section \<open>Reading a figure and a list of roots\<close>

text \<open>The curves and the marker positions of an axes.\<close>

fun curves :: "artist list \<Rightarrow> artist list" where
  "curves [] = []"
| "curves (Line2D xs ys st lb # arts) = Line2D xs ys st lb # curves arts"
| "curves (VLine v st al # arts) = curves arts"

fun vlines :: "artist list \<Rightarrow> real list" where
  "vlines [] = []"
| "vlines (Line2D xs ys st lb # arts) = vlines arts"
| "vlines (VLine v st al # arts) = v # vlines arts"

text \<open>
  The figure after markers have been added at a list of positions, as the two \<open>axvline\<close>
  calls do for each of them; and the line style and label of each curve of an axes.
\<close>

definition critical_markers :: "real list \<Rightarrow> figure \<Rightarrow> figure" where
  "critical_markers vs fig =
     fig\<lparr>axes_0 := axes_0 fig @ map (\<lambda>v. VLine v ''--'' 0.6) vs,
         axes_1 := axes_1 fig @ map (\<lambda>v. VLine v ''--'' 0.6) vs\<rparr>"

definition inflection_markers :: "real list \<Rightarrow> figure \<Rightarrow> figure" where
  "inflection_markers vs fig =
     fig\<lparr>axes_0 := axes_0 fig @ map (\<lambda>v. VLine v '':'' 0.7) vs,
         axes_2 := axes_2 fig @ map (\<lambda>v. VLine v '':'' 0.7) vs\<rparr>"

fun curve_keys :: "artist list \<Rightarrow> (string \<times> string) list" where
  "curve_keys [] = []"
| "curve_keys (Line2D xs ys st lb # arts) = (st, lb) # curve_keys arts"
| "curve_keys (VLine v st al # arts) = curve_keys arts"

text \<open>
  \<open>raises cp\<close>: the loop body raises at this root. \<open>accepted lo hi cp\<close>: the root is
  classified real and its number lies in the closed interval. \<open>accepted_values\<close> are the
  numbers of the accepted roots of a list, in order.
\<close>

definition raises :: "root \<Rightarrow> bool" where
  "raises cp =
     (case is_real cp of
        Inl e \<Rightarrow> True
      | Inr answer \<Rightarrow> answer = Some True \<and> (case to_float cp of Inl e \<Rightarrow> True | Inr v \<Rightarrow> False))"

definition accepted :: "real \<Rightarrow> real \<Rightarrow> root \<Rightarrow> bool" where
  "accepted lo hi cp =
     (is_real cp = Inr (Some True) \<and>
      (case to_float cp of Inl e \<Rightarrow> False | Inr v \<Rightarrow> lo \<le> v \<and> v \<le> hi))"

definition number_of :: "root \<Rightarrow> real" where
  "number_of cp = (case to_float cp of Inl e \<Rightarrow> 0 | Inr v \<Rightarrow> v)"

definition accepted_values :: "real \<Rightarrow> real \<Rightarrow> root list \<Rightarrow> real list" where
  "accepted_values lo hi cps = map number_of (filter (accepted lo hi) cps)"

section \<open>Properties\<close>

lemma as_num_Some: "as_num u = Some k \<longleftrightarrow> u = Num k"
  by (cases u) auto

lemma eval_scale: "eval (scale j u) t = j * eval u t"
  by (induction j u rule: scale.induct) simp_all

lemma eval_mul: "eval (mul u v) t = eval u t * eval v t"
  by (auto simp: mul_def eval_scale as_num_Some split: option.splits)

lemma eval_add: "eval (add u v) t = eval u t + eval v t"
  by (auto simp: add_def as_num_Some split: option.splits)

lemma eval_pow: "eval (pow u n) t = power_int (eval u t) n"
  by (simp add: pow_def)

lemma defined_scale: "defined_at u t \<Longrightarrow> defined_at (scale j u) t"
  by (induction j u rule: scale.induct) simp_all

lemma defined_mul: "defined_at u t \<Longrightarrow> defined_at v t \<Longrightarrow> defined_at (mul u v) t"
  by (auto simp: mul_def defined_scale split: option.splits)

lemma defined_add: "defined_at u t \<Longrightarrow> defined_at v t \<Longrightarrow> defined_at (add u v) t"
  by (auto simp: add_def as_num_Some split: option.splits)

lemma defined_pow: "defined_at u t \<Longrightarrow> (n < 0 \<longrightarrow> eval u t \<noteq> 0) \<Longrightarrow> defined_at (pow u n) t"
  by (simp add: pow_def)

text \<open>
  C1. For every country profile \<open>(a, b, c)\<close> and each of the four families,
  \<open>build_function\<close> returns an expression that is the template of the catalog table:
  its value at every point is \<open>a * e^(b*x) + c\<close>, \<open>a * ln(b*x) + c\<close>, \<open>a * x^2 + b*x + c\<close>
  or \<open>a * sin(b*x) + c\<close>, and it is defined where the template is: everywhere for the
  exponential, polynomial and trigonometric families, and for the logarithmic family
  exactly where \<open>b * x > 0\<close> (everywhere when \<open>a = 0\<close>, where SymPy's product with zero
  leaves the constant \<open>c\<close>).
\<close>

theorem build_function_templates:
  "(\<exists>f. build_function ''Exponential (Market Growth)'' ps = Some f \<and>
        eval f = (\<lambda>t. coeff_a ps * exp (coeff_b ps * t) + coeff_c ps) \<and>
        (\<forall>t. defined_at f t)) \<and>
   (\<exists>f. build_function ''Logarithmic (Diminishing Returns)'' ps = Some f \<and>
        eval f = (\<lambda>t. coeff_a ps * ln (coeff_b ps * t) + coeff_c ps) \<and>
        (\<forall>t. defined_at f t \<longleftrightarrow> coeff_a ps = 0 \<or> 0 < coeff_b ps * t)) \<and>
   (\<exists>f. build_function ''Polynomial (Cost Structure)'' ps = Some f \<and>
        eval f = (\<lambda>t. coeff_a ps * t\<^sup>2 + coeff_b ps * t + coeff_c ps) \<and>
        (\<forall>t. defined_at f t)) \<and>
   (\<exists>f. build_function ''Trigonometric (Seasonality)'' ps = Some f \<and>
        eval f = (\<lambda>t. coeff_a ps * sin (coeff_b ps * t) + coeff_c ps) \<and>
        (\<forall>t. defined_at f t))"
proof -
  have e: "\<forall>t. defined_at (add (mul (Num (coeff_a ps)) (Exp (mul (Num (coeff_b ps)) X))) (Num (coeff_c ps))) t"
    by (auto intro!: defined_add defined_mul)
  have p: "\<forall>t. defined_at (add (add (mul (Num (coeff_a ps)) (pow X 2)) (mul (Num (coeff_b ps)) X)) (Num (coeff_c ps))) t"
    by (auto intro!: defined_add defined_mul defined_pow)
  have s: "\<forall>t. defined_at (add (mul (Num (coeff_a ps)) (Sin (mul (Num (coeff_b ps)) X))) (Num (coeff_c ps))) t"
    by (auto intro!: defined_add defined_mul)
  have l: "\<forall>t. defined_at (add (mul (Num (coeff_a ps)) (Log (mul (Num (coeff_b ps)) X))) (Num (coeff_c ps))) t
      \<longleftrightarrow> coeff_a ps = 0 \<or> 0 < coeff_b ps * t"
    by (auto simp: add_def mul_def split: if_splits)
  show ?thesis
    using e p s l
    by (simp add: build_function_def Let_def eval_add eval_mul eval_pow fun_eq_iff)
qed

lemma defined_diff: "defined_at u t \<Longrightarrow> defined_at (diff u) t"
  by (induction u) (auto intro!: defined_mul defined_add defined_pow)

lemma eval_unfold:
  "eval (Num k) = (\<lambda>s. k)"
  "eval X = (\<lambda>s. s)"
  "eval (Add u v) = (\<lambda>s. eval u s + eval v s)"
  "eval (Mul u v) = (\<lambda>s. eval u s * eval v s)"
  "eval (Pow u n) = (\<lambda>s. power_int (eval u s) n)"
  "eval (Exp u) = (\<lambda>s. exp (eval u s))"
  "eval (Log u) = (\<lambda>s. ln (eval u s))"
  "eval (Sin u) = (\<lambda>s. sin (eval u s))"
  "eval (Cos u) = (\<lambda>s. cos (eval u s))"
  by (simp_all add: fun_eq_iff)

lemma eval_diff:
  "defined_at u t \<Longrightarrow> (eval u has_real_derivative eval (diff u) t) (at t)"
proof (induction u)
  case (Pow u n)
  then show ?case
    by (auto intro!: derivative_eq_intros simp: eval_unfold eval_mul eval_add eval_pow)
next
  case (Log u)
  then show ?case
    by (auto intro!: derivative_eq_intros simp: eval_unfold eval_mul eval_add eval_pow power_int_minus field_simps)
qed (auto intro!: derivative_eq_intros simp: eval_unfold eval_mul eval_add eval_pow)

lemma build_function_defined:
  assumes "build_function ft ps = Some f"
    and "ft = ''Logarithmic (Diminishing Returns)'' \<longrightarrow> 0 < coeff_b ps * t"
  shows "defined_at f t"
  using assms
  by (auto simp: build_function_def Let_def eval_mul split: if_splits
           intro!: defined_add defined_mul defined_pow)

lemma diff_semantics:
  assumes "defined_at u t" and "(eval u has_real_derivative d) (at t)"
  shows "eval (diff u) t = d"
  using eval_diff [OF assms(1)] assms(2) by (rule DERIV_unique)

lemma polynomial_defined:
  assumes "build_function ''Polynomial (Cost Structure)'' ps = Some f"
  shows "defined_at f t"
  using assms by (intro build_function_defined [where ft = "''Polynomial (Cost Structure)''"]) simp_all

lemma polynomial_eval:
  assumes "build_function ''Polynomial (Cost Structure)'' ps = Some f"
  shows "eval f = (\<lambda>s. coeff_a ps * s\<^sup>2 + coeff_b ps * s + coeff_c ps)"
  using assms by (auto simp: build_function_def Let_def eval_mul eval_add eval_pow fun_eq_iff)

lemma eval_diff_polynomial:
  assumes "build_function ''Polynomial (Cost Structure)'' ps = Some f"
  shows "eval (diff f) t = 2 * coeff_a ps * t + coeff_b ps"
proof (rule diff_semantics)
  show "defined_at f t" using assms by (rule polynomial_defined)
  show "(eval f has_real_derivative 2 * coeff_a ps * t + coeff_b ps) (at t)"
    unfolding polynomial_eval [OF assms]
    by (auto intro!: derivative_eq_intros)
qed

lemma eval_diff_diff_polynomial:
  assumes "build_function ''Polynomial (Cost Structure)'' ps = Some f"
  shows "eval (diff (diff f)) t = 2 * coeff_a ps"
proof (rule diff_semantics)
  show "defined_at (diff f) t"
    using assms by (intro defined_diff polynomial_defined)
  have "eval (diff f) = (\<lambda>s. 2 * coeff_a ps * s + coeff_b ps)"
    using assms by (simp add: fun_eq_iff eval_diff_polynomial)
  then show "(eval (diff f) has_real_derivative 2 * coeff_a ps) (at t)"
    by (auto intro!: derivative_eq_intros)
qed

text \<open>
  C2. For an expression built from any of the four families and any country profile, the
  pair computed by lines 108 and 109 is the symbolic derivative of the expression and the
  symbolic derivative of that derivative; each component denotes the derivative of the
  function before it (for the logarithmic family at the points of its domain,
  \<open>b * t > 0\<close>), and for the polynomial family the two are \<open>2*a*t + b\<close> and \<open>2*a\<close>.
\<close>

theorem derivative_pair_correct:
  assumes "build_function ft ps = Some f"
    and "ft = ''Logarithmic (Diminishing Returns)'' \<longrightarrow> 0 < coeff_b ps * t"
    and "derivative_pair f = (f_prime, f_double)"
  shows "f_prime = diff f \<and> f_double = diff f_prime \<and>
         (eval f has_real_derivative eval f_prime t) (at t) \<and>
         (eval f_prime has_real_derivative eval f_double t) (at t) \<and>
         (ft = ''Polynomial (Cost Structure)'' \<longrightarrow>
            eval f_prime t = 2 * coeff_a ps * t + coeff_b ps \<and> eval f_double t = 2 * coeff_a ps)"
proof -
  have pair: "f_prime = diff f" "f_double = diff f_prime"
    using assms(3) by (auto simp: derivative_pair_def Let_def)
  have d: "defined_at f t"
    using assms(1,2) by (rule build_function_defined)
  have d1: "(eval f has_real_derivative eval f_prime t) (at t)"
    unfolding pair using d by (rule eval_diff)
  have d2: "(eval f_prime has_real_derivative eval f_double t) (at t)"
    unfolding pair using d by (intro eval_diff defined_diff)
  have poly: "ft = ''Polynomial (Cost Structure)'' \<longrightarrow>
       eval f_prime t = 2 * coeff_a ps * t + coeff_b ps \<and> eval f_double t = 2 * coeff_a ps"
    unfolding pair using assms(1) by (auto simp: eval_diff_polynomial eval_diff_diff_polynomial)
  show ?thesis using pair d1 d2 poly by blast
qed

text \<open>
  Two instances: Spain under the logarithmic family at \<open>t = 2\<close>, inside the domain, and
  Spain under the polynomial family at \<open>t = 2\<close>.
\<close>

theorem derivative_pair_correct_witness:
  "build_function ''Logarithmic (Diminishing Returns)'' \<lparr>coeff_a = 1.2, coeff_b = 0.45, coeff_c = 3\<rparr>
     = Some (Add (Mul (Num 1.2) (Log (Mul (Num 0.45) X))) (Num 3)) \<and>
   (0::real) < 0.45 * 2 \<and>
   derivative_pair (Add (Mul (Num 1.2) (Log (Mul (Num 0.45) X))) (Num 3))
     = (Mul (Num 0.54) (Pow (Mul (Num 0.45) X) (- 1)), Mul (Num (- 0.243)) (Pow (Mul (Num 0.45) X) (- 2))) \<and>
   (eval (Add (Mul (Num 1.2) (Log (Mul (Num 0.45) X))) (Num 3)) has_real_derivative 0.6) (at 2) \<and>
   (eval (Mul (Num 0.54) (Pow (Mul (Num 0.45) X) (- 1))) has_real_derivative - 0.3) (at 2) \<and>
   build_function ''Polynomial (Cost Structure)'' \<lparr>coeff_a = 1.2, coeff_b = 0.45, coeff_c = 3\<rparr>
     = Some (Add (Add (Mul (Num 1.2) (Pow X 2)) (Mul (Num 0.45) X)) (Num 3)) \<and>
   derivative_pair (Add (Add (Mul (Num 1.2) (Pow X 2)) (Mul (Num 0.45) X)) (Num 3))
     = (Add (Mul (Num 2.4) X) (Num 0.45), Num 2.4) \<and>
   (eval (Add (Add (Mul (Num 1.2) (Pow X 2)) (Mul (Num 0.45) X)) (Num 3)) has_real_derivative 5.25) (at 2) \<and>
   (eval (Add (Mul (Num 2.4) X) (Num 0.45)) has_real_derivative 2.4) (at 2)"
proof -
  let ?ps = "\<lparr>coeff_a = 1.2, coeff_b = 0.45, coeff_c = 3\<rparr>"
  let ?f = "Add (Mul (Num 1.2) (Log (Mul (Num 0.45) X))) (Num 3)"
  let ?f1 = "Mul (Num 0.54) (Pow (Mul (Num 0.45) X) (- 1))"
  let ?f2 = "Mul (Num (- 0.243)) (Pow (Mul (Num 0.45) X) (- 2))"
  let ?g = "Add (Add (Mul (Num 1.2) (Pow X 2)) (Mul (Num 0.45) X)) (Num 3)"
  let ?g1 = "Add (Mul (Num 2.4) X) (Num 0.45)"
  let ?g2 = "Num 2.4"
  have b: "build_function ''Logarithmic (Diminishing Returns)'' ?ps = Some ?f"
    by (simp add: build_function_def Let_def add_def mul_def)
  have dom: "''Logarithmic (Diminishing Returns)'' = ''Logarithmic (Diminishing Returns)'' \<longrightarrow>
      0 < coeff_b ?ps * 2"
    by simp
  have p: "derivative_pair ?f = (?f1, ?f2)"
    by (simp add: derivative_pair_def Let_def add_def mul_def pow_def)
  have v1: "eval ?f1 2 = 0.6" by (simp add: power_int_minus)
  have v2: "eval ?f2 2 = - 0.3" by (simp add: power_int_minus power2_eq_square)
  have pos: "(0::real) < 0.45 * 2" by simp
  note pair = derivative_pair_correct [OF b dom p]
  have d1: "(eval ?f has_real_derivative eval ?f1 2) (at 2)"
    using pair by blast
  have d2: "(eval ?f1 has_real_derivative eval ?f2 2) (at 2)"
    using pair by blast
  have c: "build_function ''Polynomial (Cost Structure)'' ?ps = Some ?g"
    by (simp add: build_function_def Let_def add_def mul_def pow_def)
  have nodom: "''Polynomial (Cost Structure)'' = ''Logarithmic (Diminishing Returns)'' \<longrightarrow>
      0 < coeff_b ?ps * 2"
    by simp
  have q: "derivative_pair ?g = (?g1, ?g2)"
    by (simp add: derivative_pair_def Let_def add_def mul_def pow_def)
  note poly = derivative_pair_correct [OF c nodom q]
  have w1: "eval ?g1 2 = 2 * coeff_a ?ps * 2 + coeff_b ?ps" and w2: "eval ?g2 2 = 2 * coeff_a ?ps"
    using poly by blast+
  have x1: "2 * coeff_a ?ps * 2 + coeff_b ?ps = 5.25" and x2: "2 * coeff_a ?ps = 2.4"
    by simp_all
  have e1: "(eval ?g has_real_derivative eval ?g1 2) (at 2)"
    using poly by blast
  have e2: "(eval ?g1 has_real_derivative eval ?g2 2) (at 2)"
    using poly by blast
  show ?thesis
    using b pos p d1 [unfolded v1] d2 [unfolded v2] c q e1 [unfolded w1 x1] e2 [unfolded w2 x2]
    by blast
qed

lemma np_eval_defined: "defined_at e t \<Longrightarrow> np_eval e t = Finite (eval e t)"
  by (induction e)
     (auto simp: np_add_def np_mul_def np_pow_def np_exp_def np_log_def np_sin_def np_cos_def)

lemma np_eval_logarithmic:
  assumes "build_function ''Logarithmic (Diminishing Returns)'' ps = Some f"
    and "coeff_a ps \<noteq> 0"
  shows "free_x f \<longleftrightarrow> coeff_b ps \<noteq> 0"
    and "coeff_b ps * t \<le> 0 \<Longrightarrow> \<not> is_finite (np_eval f t)"
    and "0 < coeff_b ps * t \<Longrightarrow>
           np_eval f t = Finite (coeff_a ps * ln (coeff_b ps * t) + coeff_c ps)"
  using assms
  by (auto simp: build_function_def Let_def add_def mul_def is_finite_def
        np_add_def np_mul_def np_log_def inf_times_def np_neg_def split: if_splits)

lemma catalog_positive:
  assumes "country \<in> set countries"
  shows "\<exists>ps. lookup country = Inr ps \<and> 0 < coeff_a ps \<and> 0 < coeff_b ps"
  using assms
  by (auto simp: countries_def lookup_def country_params_def
        Spain_def Italy_def United_States_def Mexico_def Japan_def Brazil_def)

text \<open>
  C6. For the logarithmic family with \<open>b > 0\<close> and \<open>a \<noteq> 0\<close>, the lambdified expression
  gives an array with one value per sample and drawing it raises nothing; the value at a
  sample \<open>t\<close> with \<open>b * t \<le> 0\<close> is not finite, and at a sample with \<open>b * t > 0\<close> it is
  the finite number \<open>a * ln(b*t) + c\<close>. Every profile of the catalog has \<open>b > 0\<close> and
  \<open>a \<noteq> 0\<close> (the last conjunct); with \<open>a = 0\<close> SymPy's product with zero leaves the
  constant \<open>c\<close>, which is not an instance of the family that the program can build.
\<close>

theorem logarithmic_samples:
  assumes "0 < coeff_b ps" and "coeff_a ps \<noteq> 0"
    and "build_function ''Logarithmic (Diminishing Returns)'' ps = Some f"
  shows "lambdify f xs = Array (map (np_eval f) xs) \<and>
         (\<exists>ax'. plot xs (lambdify f xs) linestyle label ax = Inr ax') \<and>
         (coeff_b ps * t \<le> 0 \<longrightarrow> \<not> is_finite (np_eval f t)) \<and>
         (0 < coeff_b ps * t \<longrightarrow>
            np_eval f t = Finite (coeff_a ps * ln (coeff_b ps * t) + coeff_c ps)) \<and>
         (\<forall>country \<in> set countries.
            \<exists>q. lookup country = Inr q \<and> 0 < coeff_b q \<and> coeff_a q \<noteq> 0)"
proof -
  have "free_x f"
    using np_eval_logarithmic(1) [OF assms(3,2)] assms(1) by simp
  then have l: "lambdify f xs = Array (map (np_eval f) xs)"
    by (simp add: lambdify_def)
  then have p: "\<exists>ax'. plot xs (lambdify f xs) linestyle label ax = Inr ax'"
    by (simp add: plot_def)
  have c: "\<forall>country \<in> set countries.
      \<exists>q. lookup country = Inr q \<and> 0 < coeff_b q \<and> coeff_a q \<noteq> 0"
    using catalog_positive by fastforce
  show ?thesis
    using l p c np_eval_logarithmic(2,3) [OF assms(3,2)] by blast
qed

text \<open>
  An instance: Spain at the samples -2, 0 and 2 gives \<open>nan\<close>, \<open>-inf\<close> and a finite value.
\<close>

theorem logarithmic_samples_witness:
  "(0::real) < 0.45 \<and> (1.2::real) \<noteq> 0 \<and>
   build_function ''Logarithmic (Diminishing Returns)'' \<lparr>coeff_a = 1.2, coeff_b = 0.45, coeff_c = 3\<rparr>
     = Some (Add (Mul (Num 1.2) (Log (Mul (Num 0.45) X))) (Num 3)) \<and>
   (0.45::real) * (- 2) \<le> 0 \<and> (0.45::real) * 0 \<le> 0 \<and> (0::real) < 0.45 * 2 \<and>
   lambdify (Add (Mul (Num 1.2) (Log (Mul (Num 0.45) X))) (Num 3)) [- 2, 0, 2] =
     Array [NaN, NegInf, Finite (1.2 * ln (0.45 * 2) + 3)] \<and>
   \<not> is_finite (np_eval (Add (Mul (Num 1.2) (Log (Mul (Num 0.45) X))) (Num 3)) (- 2)) \<and>
   \<not> is_finite (np_eval (Add (Mul (Num 1.2) (Log (Mul (Num 0.45) X))) (Num 3)) 0)"
proof -
  let ?ps = "\<lparr>coeff_a = 1.2, coeff_b = 0.45, coeff_c = 3\<rparr>"
  let ?f = "Add (Mul (Num 1.2) (Log (Mul (Num 0.45) X))) (Num 3)"
  have b: "0 < coeff_b ?ps" and a: "coeff_a ?ps \<noteq> 0"
    by simp_all
  have f: "build_function ''Logarithmic (Diminishing Returns)'' ?ps = Some ?f"
    by (simp add: build_function_def Let_def add_def mul_def)
  note th = logarithmic_samples [OF b a f]
  have arr: "lambdify ?f [- 2, 0, 2] = Array (map (np_eval ?f) [- 2, 0, 2])"
    using th [of "[- 2, 0, 2]"] by blast
  have neg: "\<not> is_finite (np_eval ?f (- 2))"
    using th [of "[]" _ _ _ "- 2"] by simp
  have zero: "\<not> is_finite (np_eval ?f 0)"
    using th [of "[]" _ _ _ 0] by simp
  have pos: "np_eval ?f 2 = Finite (1.2 * ln (0.45 * 2) + 3)"
    using th [of "[]" _ _ _ 2] by simp
  have v1: "np_eval ?f (- 2) = NaN"
    by (simp add: np_add_def np_mul_def np_log_def)
  have v2: "np_eval ?f 0 = NegInf"
    by (simp add: np_add_def np_mul_def np_log_def inf_times_def)
  have "lambdify ?f [- 2, 0, 2] = Array [NaN, NegInf, Finite (1.2 * ln (0.45 * 2) + 3)]"
    unfolding arr using v1 v2 pos by simp
  moreover have "(0::real) < 0.45" "(1.2::real) \<noteq> 0" "(0.45::real) * (- 2) \<le> 0"
    "(0.45::real) * 0 \<le> 0" "(0::real) < 0.45 * 2"
    by simp_all
  ultimately show ?thesis
    using f neg zero by blast
qed

text \<open>
  C8. Looking a country up that is not one of the six catalog entries fails (Python's
  \<open>KeyError\<close> is the catalog's unknown-country error); each of the six names gives its fixed
  coefficient triple.
\<close>

theorem lookup_catalog:
  "(country \<notin> set countries \<longrightarrow> lookup country = Inl KeyError) \<and>
   lookup Spain = Inr \<lparr>coeff_a = 1.2, coeff_b = 0.45, coeff_c = 3\<rparr> \<and>
   lookup Italy = Inr \<lparr>coeff_a = 1.0, coeff_b = 0.30, coeff_c = 4.5\<rparr> \<and>
   lookup United_States = Inr \<lparr>coeff_a = 1.5, coeff_b = 0.35, coeff_c = 6\<rparr> \<and>
   lookup Mexico = Inr \<lparr>coeff_a = 1.1, coeff_b = 0.50, coeff_c = 2.5\<rparr> \<and>
   lookup Japan = Inr \<lparr>coeff_a = 0.9, coeff_b = 0.25, coeff_c = 5\<rparr> \<and>
   lookup Brazil = Inr \<lparr>coeff_a = 1.3, coeff_b = 0.55, coeff_c = 3\<rparr>"
  by (simp add: lookup_def country_params_def countries_def
        Spain_def Italy_def United_States_def Mexico_def Japan_def Brazil_def)

theorem lookup_catalog_witness:
  "''France'' \<notin> set countries \<and> lookup ''France'' = Inl KeyError"
proof -
  have out: "''France'' \<notin> set countries"
    by (simp add: countries_def Spain_def Italy_def United_States_def Mexico_def Japan_def Brazil_def)
  with lookup_catalog [of "''France''"] show ?thesis
    by blast
qed

lemma fold_axvline_critical: "fold axvline_critical vs fig = critical_markers vs fig"
  by (induction vs arbitrary: fig) (simp_all add: critical_markers_def axvline_critical_def)

lemma fold_axvline_inflection: "fold axvline_inflection vs fig = inflection_markers vs fig"
  by (induction vs arbitrary: fig) (simp_all add: inflection_markers_def axvline_inflection_def)

lemma for_roots_figure:
  "fst (for_roots axvline lo hi cps fig) =
     fold axvline (accepted_values lo hi (takeWhile (\<lambda>cp. \<not> raises cp) cps)) fig"
  by (induction cps arbitrary: fig)
     (auto simp: accepted_values_def accepted_def raises_def number_of_def split: sum.splits)

lemma for_roots_exception:
  "snd (for_roots axvline lo hi cps fig) = None \<longleftrightarrow> (\<forall>cp \<in> set cps. \<not> raises cp)"
  by (induction cps arbitrary: fig) (auto simp: raises_def split: sum.splits)

lemma except_pass_fst: "except_pass r = Inr (fst r)"
  by (simp add: except_pass_def split: option.splits)

lemma mark_critical_points_roots:
  "mark_critical_points (Inr cps) lo hi fig =
     Inr (critical_markers (accepted_values lo hi (takeWhile (\<lambda>cp. \<not> raises cp) cps)) fig)"
  by (simp add: mark_critical_points_def except_pass_fst try_roots_def for_roots_figure
        fold_axvline_critical)

lemma mark_inflection_points_roots:
  "mark_inflection_points (Inr cps) lo hi fig =
     Inr (inflection_markers (accepted_values lo hi (takeWhile (\<lambda>cp. \<not> raises cp) cps)) fig)"
  by (simp add: mark_inflection_points_def except_pass_fst try_roots_def for_roots_figure
        fold_axvline_inflection)

lemma takeWhile_all: "\<forall>cp \<in> set cps. \<not> raises cp \<Longrightarrow> takeWhile (\<lambda>cp. \<not> raises cp) cps = cps"
  by (simp add: takeWhile_eq_all_conv)

lemma accepted_iff:
  "accepted lo hi cp \<longleftrightarrow>
     is_real cp = Inr (Some True) \<and> to_float cp = Inr (number_of cp) \<and>
     lo \<le> number_of cp \<and> number_of cp \<le> hi"
  by (cases "to_float cp") (auto simp: accepted_def number_of_def)

lemma set_accepted_values:
  "set (accepted_values lo hi cps) =
     {v. \<exists>cp \<in> set cps. is_real cp = Inr (Some True) \<and> to_float cp = Inr v \<and> lo \<le> v \<and> v \<le> hi}"
proof (intro set_eqI iffI)
  fix v
  assume "v \<in> set (accepted_values lo hi cps)"
  then obtain cp where "cp \<in> set cps" "accepted lo hi cp" "v = number_of cp"
    by (auto simp: accepted_values_def)
  then show "v \<in> {v. \<exists>cp \<in> set cps. is_real cp = Inr (Some True) \<and> to_float cp = Inr v \<and>
                 lo \<le> v \<and> v \<le> hi}"
    by (auto simp: accepted_iff)
next
  fix v
  assume "v \<in> {v. \<exists>cp \<in> set cps. is_real cp = Inr (Some True) \<and> to_float cp = Inr v \<and>
                 lo \<le> v \<and> v \<le> hi}"
  then obtain cp where cp: "cp \<in> set cps" "is_real cp = Inr (Some True)" "to_float cp = Inr v"
      "lo \<le> v" "v \<le> hi"
    by blast
  then have "number_of cp = v" "accepted lo hi cp"
    by (simp_all add: number_of_def accepted_def)
  with cp(1) show "v \<in> set (accepted_values lo hi cps)"
    by (force simp: accepted_values_def)
qed

lemma vlines_append: "vlines (arts @ arts') = vlines arts @ vlines arts'"
  by (induction arts rule: vlines.induct) simp_all

lemma vlines_map_VLine: "vlines (map (\<lambda>v. VLine v st al) vs) = vs"
  by (induction vs) simp_all

text \<open>
  The marker positions after the two steps: critical points appear on the first and the
  second axes, inflection points on the first and the third.
\<close>

lemma vlines_critical_markers:
  "vlines (axes_0 (critical_markers vs fig)) = vlines (axes_0 fig) @ vs"
  "vlines (axes_1 (critical_markers vs fig)) = vlines (axes_1 fig) @ vs"
  "vlines (axes_2 (critical_markers vs fig)) = vlines (axes_2 fig)"
  by (simp_all add: critical_markers_def vlines_append vlines_map_VLine)

lemma vlines_inflection_markers:
  "vlines (axes_0 (inflection_markers vs fig)) = vlines (axes_0 fig) @ vs"
  "vlines (axes_1 (inflection_markers vs fig)) = vlines (axes_1 fig)"
  "vlines (axes_2 (inflection_markers vs fig)) = vlines (axes_2 fig) @ vs"
  by (simp_all add: inflection_markers_def vlines_append vlines_map_VLine)

lemma mark_points_solve_raises:
  "mark_critical_points (Inl e) lo hi fig = Inr fig"
  "mark_inflection_points (Inl e) lo hi fig = Inr fig"
  by (simp_all add: mark_critical_points_def mark_inflection_points_def try_roots_def except_pass_fst)

text \<open>
  C4. \<open>cps\<close> is the list of roots that \<open>sp.solve\<close> returned for the expression, each
  with its real classification and its number (what happens when classification or
  conversion raises is the subject of C3 and C10). The markers added for the critical
  points, and likewise for the inflection points, are at exactly the numbers of the roots
  that are classified real and lie in the closed interval from \<open>lo\<close> to \<open>hi\<close>, both ends
  included; when solving raises there is no root and no marker is added. In
  \<open>plot_country\<close> these are the markers of a pass (\<open>plot_country_markers\<close>).
\<close>

theorem marked_points_exact:
  assumes "\<forall>cp \<in> set cps. \<not> raises cp"
  shows "mark_critical_points (Inr cps) lo hi fig =
           Inr (critical_markers (accepted_values lo hi cps) fig) \<and>
         mark_inflection_points (Inr cps) lo hi fig =
           Inr (inflection_markers (accepted_values lo hi cps) fig) \<and>
         set (accepted_values lo hi cps) =
           {v. \<exists>cp \<in> set cps. is_real cp = Inr (Some True) \<and> to_float cp = Inr v \<and>
                 lo \<le> v \<and> v \<le> hi} \<and>
         vlines (axes_1 (critical_markers (accepted_values lo hi cps) fig)) =
           vlines (axes_1 fig) @ accepted_values lo hi cps \<and>
         vlines (axes_2 (inflection_markers (accepted_values lo hi cps) fig)) =
           vlines (axes_2 fig) @ accepted_values lo hi cps \<and>
         mark_critical_points (Inl e) lo hi fig = Inr fig \<and>
         mark_inflection_points (Inl e) lo hi fig = Inr fig"
  using assms
  by (simp add: mark_critical_points_roots mark_inflection_points_roots takeWhile_all
        set_accepted_values vlines_critical_markers vlines_inflection_markers
        mark_points_solve_raises)

theorem marked_points_exact_witness:
  "\<not> raises \<lparr>is_real = Inr (Some True), to_float = Inr 0\<rparr> \<and>
   \<not> raises \<lparr>is_real = Inr (Some False), to_float = Inl TypeError\<rparr> \<and>
   \<not> raises \<lparr>is_real = Inr None, to_float = Inr 1\<rparr> \<and>
   \<not> raises \<lparr>is_real = Inr (Some True), to_float = Inr 2\<rparr> \<and>
   \<not> raises \<lparr>is_real = Inr (Some True), to_float = Inr 3\<rparr> \<and>
   mark_critical_points
     (Inr [\<lparr>is_real = Inr (Some True), to_float = Inr 0\<rparr>,
           \<lparr>is_real = Inr (Some False), to_float = Inl TypeError\<rparr>,
           \<lparr>is_real = Inr None, to_float = Inr 1\<rparr>,
           \<lparr>is_real = Inr (Some True), to_float = Inr 2\<rparr>,
           \<lparr>is_real = Inr (Some True), to_float = Inr 3\<rparr>]) 0 2 subplots =
     Inr \<lparr>axes_0 = [VLine 0 ''--'' 0.6, VLine 2 ''--'' 0.6],
          axes_1 = [VLine 0 ''--'' 0.6, VLine 2 ''--'' 0.6],
          axes_2 = []\<rparr>"
proof -
  let ?cps = "[\<lparr>is_real = Inr (Some True), to_float = Inr 0\<rparr>,
               \<lparr>is_real = Inr (Some False), to_float = Inl TypeError\<rparr>,
               \<lparr>is_real = Inr None, to_float = Inr 1\<rparr>,
               \<lparr>is_real = Inr (Some True), to_float = Inr 2\<rparr>,
               \<lparr>is_real = Inr (Some True), to_float = Inr (3::real)\<rparr>]"
  have ok: "\<forall>cp \<in> set ?cps. \<not> raises cp"
    by (simp add: raises_def)
  have vs: "accepted_values 0 2 ?cps = [0, 2]"
    by (simp add: accepted_values_def accepted_def number_of_def)
  have "mark_critical_points (Inr ?cps) 0 2 subplots =
          Inr (critical_markers (accepted_values 0 2 ?cps) subplots)"
    using marked_points_exact [OF ok, of 0 2 subplots] by blast
  then have "mark_critical_points (Inr ?cps) 0 2 subplots =
      Inr \<lparr>axes_0 = [VLine 0 ''--'' 0.6, VLine 2 ''--'' 0.6],
           axes_1 = [VLine 0 ''--'' 0.6, VLine 2 ''--'' 0.6],
           axes_2 = []\<rparr>"
    unfolding vs by (simp add: critical_markers_def subplots_def)
  with ok show ?thesis
    by simp
qed

lemma takeWhile_until_raise:
  assumes "\<forall>p \<in> set pre. \<not> raises p" and "raises cp"
  shows "takeWhile (\<lambda>cp. \<not> raises cp) (pre @ cp # post) = pre"
  using assms by (simp add: takeWhile_append2)

lemma critical_markers_Nil: "critical_markers [] fig = fig"
  by (simp add: critical_markers_def)

lemma inflection_markers_Nil: "inflection_markers [] fig = fig"
  by (simp add: inflection_markers_def)

lemma mark_points_complete:
  "\<exists>fig'. mark_critical_points solved lo hi fig = Inr fig'"
  "\<exists>fig'. mark_inflection_points solved lo hi fig = Inr fig'"
  by (simp_all add: mark_critical_points_def mark_inflection_points_def except_pass_fst)

text \<open>
  C3 (as amended). The root-finding step never propagates an exception: for whatever
  \<open>sp.solve\<close> did, it completes with a figure. It adds no marker when solving raises. When
  classification or conversion raises at a root, after roots \<open>pre\<close> that do not raise, it
  adds the markers of the accepted roots among \<open>pre\<close>: none when there is no such root.
\<close>

theorem root_step_fail_soft:
  assumes "raises cp" and "\<forall>p \<in> set pre. \<not> raises p"
  shows "(\<exists>fig'. mark_critical_points solved lo hi fig = Inr fig') \<and>
         (\<exists>fig'. mark_inflection_points solved lo hi fig = Inr fig') \<and>
         mark_critical_points (Inl e) lo hi fig = Inr fig \<and>
         mark_inflection_points (Inl e) lo hi fig = Inr fig \<and>
         mark_critical_points (Inr (pre @ cp # post)) lo hi fig =
           Inr (critical_markers (accepted_values lo hi pre) fig) \<and>
         mark_inflection_points (Inr (pre @ cp # post)) lo hi fig =
           Inr (inflection_markers (accepted_values lo hi pre) fig) \<and>
         (accepted_values lo hi pre = [] \<longrightarrow>
            mark_critical_points (Inr (pre @ cp # post)) lo hi fig = Inr fig \<and>
            mark_inflection_points (Inr (pre @ cp # post)) lo hi fig = Inr fig)"
proof -
  have tw: "takeWhile (\<lambda>cp. \<not> raises cp) (pre @ cp # post) = pre"
    using assms(2,1) by (rule takeWhile_until_raise)
  have m: "mark_critical_points (Inr (pre @ cp # post)) lo hi fig =
             Inr (critical_markers (accepted_values lo hi pre) fig)"
          "mark_inflection_points (Inr (pre @ cp # post)) lo hi fig =
             Inr (inflection_markers (accepted_values lo hi pre) fig)"
    by (simp_all add: mark_critical_points_roots mark_inflection_points_roots tw)
  have n: "accepted_values lo hi pre = [] \<longrightarrow>
            mark_critical_points (Inr (pre @ cp # post)) lo hi fig = Inr fig \<and>
            mark_inflection_points (Inr (pre @ cp # post)) lo hi fig = Inr fig"
    by (simp add: m critical_markers_Nil inflection_markers_Nil)
  show ?thesis
    using m n mark_points_complete [of solved lo hi fig] mark_points_solve_raises [of e lo hi fig]
    by blast
qed

text \<open>
  An instance: solving raises \<open>NotImplementedError\<close>; and conversion raises at the third
  root, after a complex root and a real root outside the interval.
\<close>

theorem root_step_fail_soft_witness:
  "raises \<lparr>is_real = Inr (Some True), to_float = Inl TypeError\<rparr> \<and>
   \<not> raises \<lparr>is_real = Inr (Some False), to_float = Inl TypeError\<rparr> \<and>
   \<not> raises \<lparr>is_real = Inr (Some True), to_float = Inr 5\<rparr> \<and>
   accepted_values 0 2 [\<lparr>is_real = Inr (Some False), to_float = Inl TypeError\<rparr>,
                         \<lparr>is_real = Inr (Some True), to_float = Inr 5\<rparr>] = [] \<and>
   mark_critical_points (Inl NotImplementedError) 0 2 subplots = Inr subplots \<and>
   mark_critical_points
     (Inr ([\<lparr>is_real = Inr (Some False), to_float = Inl TypeError\<rparr>,
            \<lparr>is_real = Inr (Some True), to_float = Inr 5\<rparr>] @
           \<lparr>is_real = Inr (Some True), to_float = Inl TypeError\<rparr> #
           [\<lparr>is_real = Inr (Some True), to_float = Inr 1\<rparr>])) 0 2 subplots = Inr subplots"
proof -
  let ?bad = "\<lparr>is_real = Inr (Some True), to_float = Inl TypeError :: exn + real\<rparr>"
  let ?pre = "[\<lparr>is_real = Inr (Some False), to_float = Inl TypeError\<rparr>,
               \<lparr>is_real = Inr (Some True), to_float = Inr (5::real)\<rparr>]"
  have r: "raises ?bad"
    by (simp add: raises_def)
  have p: "\<forall>p \<in> set ?pre. \<not> raises p"
    by (simp add: raises_def)
  have q: "\<not> raises \<lparr>is_real = Inr (Some False), to_float = Inl TypeError\<rparr> \<and>
      \<not> raises \<lparr>is_real = Inr (Some True), to_float = Inr 5\<rparr>"
    using p by simp
  have none: "accepted_values 0 2 ?pre = []"
    by (simp add: accepted_values_def accepted_def)
  show ?thesis
    using r q none
      root_step_fail_soft [OF r p, of "Inl NotImplementedError" 0 2 subplots NotImplementedError
        "[\<lparr>is_real = Inr (Some True), to_float = Inr 1\<rparr>]"]
    by blast
qed

text \<open>
  C3 as stated fails: conversion raises at the second root, after the first root has been
  marked; the step completes, but what it contributes is the marker at 1, not the empty set.
\<close>

theorem root_step_counterexample:
  "raises \<lparr>is_real = Inr (Some True), to_float = Inl TypeError\<rparr> \<and>
   mark_critical_points
     (Inr [\<lparr>is_real = Inr (Some True), to_float = Inr 1\<rparr>,
           \<lparr>is_real = Inr (Some True), to_float = Inl TypeError\<rparr>]) 0 2 subplots =
     Inr \<lparr>axes_0 = [VLine 1 ''--'' 0.6], axes_1 = [VLine 1 ''--'' 0.6], axes_2 = []\<rparr> \<and>
   mark_inflection_points
     (Inr [\<lparr>is_real = Inr (Some True), to_float = Inr 1\<rparr>,
           \<lparr>is_real = Inr (Some True), to_float = Inl TypeError\<rparr>]) 0 2 subplots =
     Inr \<lparr>axes_0 = [VLine 1 '':'' 0.7], axes_1 = [], axes_2 = [VLine 1 '':'' 0.7]\<rparr>"
  by (simp add: raises_def mark_critical_points_def mark_inflection_points_def try_roots_def
        except_pass_def subplots_def axvline_critical_def axvline_inflection_def)

text \<open>
  C10. The handler wraps the whole loop. When classification or conversion raises at a
  root, after roots \<open>pre\<close> that do not raise, the exception leaves the loop with the
  markers of the accepted roots among \<open>pre\<close> in place, the handler swallows it, and the
  step completes with exactly these markers: a prefix of the accepted roots, and (as the
  instance after the theorem shows) not always empty.
\<close>

theorem failure_keeps_earlier_markers:
  assumes "\<forall>p \<in> set pre. \<not> raises p" and "raises cp"
  shows "(\<exists>e. try_roots axvline_critical (Inr (pre @ cp # post)) lo hi fig =
               (critical_markers (accepted_values lo hi pre) fig, Some e)) \<and>
         (\<exists>e. try_roots axvline_inflection (Inr (pre @ cp # post)) lo hi fig =
               (inflection_markers (accepted_values lo hi pre) fig, Some e)) \<and>
         mark_critical_points (Inr (pre @ cp # post)) lo hi fig =
           Inr (critical_markers (accepted_values lo hi pre) fig) \<and>
         mark_inflection_points (Inr (pre @ cp # post)) lo hi fig =
           Inr (inflection_markers (accepted_values lo hi pre) fig) \<and>
         (\<exists>rest. accepted_values lo hi (pre @ cp # post) = accepted_values lo hi pre @ rest)"
proof -
  let ?cps = "pre @ cp # post"
  have tw: "takeWhile (\<lambda>cp. \<not> raises cp) ?cps = pre"
    using assms by (rule takeWhile_until_raise)
  have exc: "snd (for_roots axvline lo hi ?cps fig) \<noteq> None" for axvline
    using assms(2) by (simp add: for_roots_exception)
  have c: "\<exists>e. try_roots axvline_critical (Inr ?cps) lo hi fig =
               (critical_markers (accepted_values lo hi pre) fig, Some e)"
    using exc [of axvline_critical] for_roots_figure [of axvline_critical lo hi ?cps fig]
    by (cases "for_roots axvline_critical lo hi ?cps fig")
       (auto simp: try_roots_def tw fold_axvline_critical)
  have i: "\<exists>e. try_roots axvline_inflection (Inr ?cps) lo hi fig =
               (inflection_markers (accepted_values lo hi pre) fig, Some e)"
    using exc [of axvline_inflection] for_roots_figure [of axvline_inflection lo hi ?cps fig]
    by (cases "for_roots axvline_inflection lo hi ?cps fig")
       (auto simp: try_roots_def tw fold_axvline_inflection)
  have m: "mark_critical_points (Inr ?cps) lo hi fig =
             Inr (critical_markers (accepted_values lo hi pre) fig)"
          "mark_inflection_points (Inr ?cps) lo hi fig =
             Inr (inflection_markers (accepted_values lo hi pre) fig)"
    by (simp_all add: mark_critical_points_roots mark_inflection_points_roots tw)
  have pre: "\<exists>rest. accepted_values lo hi ?cps = accepted_values lo hi pre @ rest"
    by (simp add: accepted_values_def)
  show ?thesis using c i m pre by blast
qed

theorem failure_keeps_earlier_markers_witness:
  "\<not> raises \<lparr>is_real = Inr (Some True), to_float = Inr 1\<rparr> \<and>
   raises \<lparr>is_real = Inl TypeError, to_float = Inr 1.5\<rparr> \<and>
   mark_critical_points
     (Inr ([\<lparr>is_real = Inr (Some True), to_float = Inr 1\<rparr>] @
           \<lparr>is_real = Inl TypeError, to_float = Inr 1.5\<rparr> #
           [\<lparr>is_real = Inr (Some True), to_float = Inr 2\<rparr>])) 0 2 subplots =
     Inr \<lparr>axes_0 = [VLine 1 ''--'' 0.6], axes_1 = [VLine 1 ''--'' 0.6], axes_2 = []\<rparr>"
proof -
  let ?pre = "[\<lparr>is_real = Inr (Some True), to_float = Inr (1::real)\<rparr>]"
  let ?bad = "\<lparr>is_real = Inl TypeError, to_float = Inr (1.5::real)\<rparr>"
  have p: "\<forall>p \<in> set ?pre. \<not> raises p"
    by (simp add: raises_def)
  have r: "raises ?bad"
    by (simp add: raises_def)
  have vs: "accepted_values 0 2 ?pre = [1]"
    by (simp add: accepted_values_def accepted_def number_of_def)
  have "mark_critical_points
          (Inr (?pre @ ?bad # [\<lparr>is_real = Inr (Some True), to_float = Inr 2\<rparr>])) 0 2 subplots =
        Inr (critical_markers (accepted_values 0 2 ?pre) subplots)"
    using failure_keeps_earlier_markers [OF p r] by blast
  then have "mark_critical_points
          (Inr (?pre @ ?bad # [\<lparr>is_real = Inr (Some True), to_float = Inr 2\<rparr>])) 0 2 subplots =
        Inr \<lparr>axes_0 = [VLine 1 ''--'' 0.6], axes_1 = [VLine 1 ''--'' 0.6], axes_2 = []\<rparr>"
    unfolding vs by (simp add: critical_markers_def subplots_def)
  with p r show ?thesis
    by simp
qed

lemma length_linspace: "length (linspace start stop num) = num"
  by (simp add: linspace_def Let_def)

lemma length_x_vals: "length (x_vals inp) = 1000"
  by (simp add: x_vals_def length_linspace)

lemma linspace_nth:
  assumes "i < num"
  shows "linspace start stop num ! i = start + real i * ((stop - start) / real (num - 1))"
proof (cases "i = num - 1")
  case True
  with assms have "1 < num \<Longrightarrow> real i * ((stop - start) / real (num - 1)) = stop - start"
    by simp
  with True assms show ?thesis
    by (auto simp: linspace_def Let_def)
next
  case False
  with assms have "1 < num" by arith
  with False assms show ?thesis
    by (simp add: linspace_def Let_def)
qed

lemma x_vals_samples:
  "length (x_vals inp) = 1000 \<and>
   x_vals inp ! 0 = xmin inp \<and>
   x_vals inp ! 999 = xmax inp \<and>
   (\<forall>i < 1000. x_vals inp ! i = xmin inp + real i * ((xmax inp - xmin inp) / 999))"
proof -
  have n: "\<forall>i < 1000. x_vals inp ! i = xmin inp + real i * ((xmax inp - xmin inp) / 999)"
    by (simp add: x_vals_def linspace_nth)
  have first: "x_vals inp ! 0 = xmin inp"
    by (simp add: x_vals_def linspace_nth)
  have last: "x_vals inp ! 999 = xmax inp"
    by (simp add: x_vals_def linspace_def Let_def)
  from n first last length_x_vals show ?thesis by blast
qed

lemma polynomial_second_derivative_constant:
  assumes "build_function ''Polynomial (Cost Structure)'' ps = Some f"
  shows "\<exists>k. diff (diff f) = Num k"
  using assms
  by (auto simp: build_function_def Let_def add_def mul_def pow_def split: if_splits)

lemma plot_Scalar:
  "length xs \<noteq> 1 \<Longrightarrow> plot xs (Scalar v) linestyle label ax = Inl ValueError"
  by (simp add: plot_def)

lemma plot_Array:
  "plot xs (Array (map g xs)) linestyle label ax = Inr (ax @ [Line2D xs (map g xs) linestyle label])"
  by (simp add: plot_def)

lemma plot_error: "plot xs y linestyle label ax = Inl e \<Longrightarrow> e = ValueError"
  by (auto simp: plot_def Let_def split: if_splits)

lemma three_families_free_x:
  assumes "build_function ft ps = Some f"
    and "ft \<noteq> ''Polynomial (Cost Structure)''"
    and "coeff_a ps \<noteq> 0" and "coeff_b ps \<noteq> 0"
  shows "free_x f \<and> free_x (diff f) \<and> free_x (diff (diff f))"
  using assms
  by (auto simp: build_function_def Let_def add_def mul_def pow_def split: if_splits)

lemma polynomial_raises:
  assumes "function_type inp = ''Polynomial (Cost Structure)''"
    and "lookup country = Inr ps"
  shows "plot_country inp solve country linestyle fig = Inl ValueError"
proof -
  obtain f where f: "build_function ''Polynomial (Cost Structure)'' ps = Some f"
    by (simp add: build_function_def Let_def)
  obtain k where k: "diff (diff f) = Num k"
    using polynomial_second_derivative_constant [OF f] by blast
  have last: "plot (x_vals inp) (lambdify (diff (diff f)) (x_vals inp)) linestyle country ax = Inl ValueError" for ax
    by (simp add: k lambdify_def plot_Scalar length_x_vals)
  show ?thesis
    using assms f
    by (auto simp: plot_country_def derivative_pair_def Let_def last
             split: sum.splits dest: plot_error)
qed

lemma curves_append: "curves (arts @ arts') = curves arts @ curves arts'"
  by (induction arts rule: curves.induct) simp_all

lemma curves_map_VLine: "curves (map (\<lambda>v. VLine v st al) vs) = []"
  by (induction vs) simp_all

lemma curves_critical_markers:
  "curves (axes_0 (critical_markers vs fig)) = curves (axes_0 fig)"
  "curves (axes_1 (critical_markers vs fig)) = curves (axes_1 fig)"
  "curves (axes_2 (critical_markers vs fig)) = curves (axes_2 fig)"
  by (simp_all add: critical_markers_def curves_append curves_map_VLine)

lemma curves_inflection_markers:
  "curves (axes_0 (inflection_markers vs fig)) = curves (axes_0 fig)"
  "curves (axes_1 (inflection_markers vs fig)) = curves (axes_1 fig)"
  "curves (axes_2 (inflection_markers vs fig)) = curves (axes_2 fig)"
  by (simp_all add: inflection_markers_def curves_append curves_map_VLine)

lemma mark_critical_points_shape:
  "\<exists>vs. mark_critical_points solved lo hi fig = Inr (critical_markers vs fig)"
proof (cases solved)
  case (Inl e)
  then have "mark_critical_points solved lo hi fig = Inr (critical_markers [] fig)"
    by (simp add: mark_points_solve_raises critical_markers_Nil)
  then show ?thesis ..
next
  case (Inr cps)
  then show ?thesis
    by (auto simp: mark_critical_points_roots)
qed

lemma mark_inflection_points_shape:
  "\<exists>vs. mark_inflection_points solved lo hi fig = Inr (inflection_markers vs fig)"
proof (cases solved)
  case (Inl e)
  then have "mark_inflection_points solved lo hi fig = Inr (inflection_markers [] fig)"
    by (simp add: mark_points_solve_raises inflection_markers_Nil)
  then show ?thesis ..
next
  case (Inr cps)
  then show ?thesis
    by (auto simp: mark_inflection_points_roots)
qed

lemma plot_country_draws:
  assumes "lookup country = Inr ps"
    and "build_function (function_type inp) ps = Some f"
    and "function_type inp \<noteq> ''Polynomial (Cost Structure)''"
    and "coeff_a ps \<noteq> 0" and "coeff_b ps \<noteq> 0"
  shows "\<exists>fig'. plot_country inp solve country linestyle fig = Inr fig' \<and>
     curves (axes_0 fig') = curves (axes_0 fig) @
        [Line2D (x_vals inp) (map (np_eval f) (x_vals inp)) linestyle country] \<and>
     curves (axes_1 fig') = curves (axes_1 fig) @
        [Line2D (x_vals inp) (map (np_eval (diff f)) (x_vals inp)) linestyle country] \<and>
     curves (axes_2 fig') = curves (axes_2 fig) @
        [Line2D (x_vals inp) (map (np_eval (diff (diff f))) (x_vals inp)) linestyle country]"
proof -
  let ?xs = "x_vals inp"
  let ?fig1 = "\<lparr>axes_0 = axes_0 fig @ [Line2D ?xs (map (np_eval f) ?xs) linestyle country],
                axes_1 = axes_1 fig @ [Line2D ?xs (map (np_eval (diff f)) ?xs) linestyle country],
                axes_2 = axes_2 fig @ [Line2D ?xs (map (np_eval (diff (diff f))) ?xs) linestyle country]\<rparr>"
  have fx: "free_x f" "free_x (diff f)" "free_x (diff (diff f))"
    using three_families_free_x [OF assms(2,3,4,5)] by simp_all
  obtain vs where vs: "mark_critical_points (solve (diff f)) (xmin inp) (xmax inp) ?fig1 =
      Inr (critical_markers vs ?fig1)"
    using mark_critical_points_shape by blast
  obtain ws where ws: "mark_inflection_points (solve (diff (diff f))) (xmin inp) (xmax inp)
      (critical_markers vs ?fig1) = Inr (inflection_markers ws (critical_markers vs ?fig1))"
    using mark_inflection_points_shape by blast
  have "plot_country inp solve country linestyle fig =
          Inr (inflection_markers ws (critical_markers vs ?fig1))"
    using assms(1,2) fx
    by (simp add: plot_country_def derivative_pair_def Let_def lambdify_def plot_Array vs ws)
  then show ?thesis
    by (simp add: curves_inflection_markers curves_critical_markers curves_append)
qed

lemma catalog_nonzero:
  assumes "country \<in> set countries"
  shows "\<exists>ps. lookup country = Inr ps \<and> coeff_a ps \<noteq> 0 \<and> coeff_b ps \<noteq> 0"
  using assms
  by (auto simp: countries_def lookup_def country_params_def
        Spain_def Italy_def United_States_def Mexico_def Japan_def Brazil_def)

lemma curve_keys_append: "curve_keys (arts @ arts') = curve_keys arts @ curve_keys arts'"
  by (induction arts rule: curve_keys.induct) simp_all

lemma curve_keys_curves: "curve_keys (curves arts) = curve_keys arts"
  by (induction arts rule: curves.induct) simp_all

lemma build_function_three_families:
  assumes "ft \<in> {''Exponential (Market Growth)'', ''Logarithmic (Diminishing Returns)'',
                 ''Trigonometric (Seasonality)''}"
  shows "\<exists>f. build_function ft ps = Some f" and "ft \<noteq> ''Polynomial (Cost Structure)''"
  using assms by (auto simp: build_function_def Let_def)

lemma plot_country_curve_keys:
  assumes "function_type inp \<in> {''Exponential (Market Growth)'',
             ''Logarithmic (Diminishing Returns)'', ''Trigonometric (Seasonality)''}"
    and "country \<in> set countries"
  shows "\<exists>fig'. plot_country inp solve country linestyle fig = Inr fig' \<and>
     curve_keys (axes_0 fig') = curve_keys (axes_0 fig) @ [(linestyle, country)] \<and>
     curve_keys (axes_1 fig') = curve_keys (axes_1 fig) @ [(linestyle, country)] \<and>
     curve_keys (axes_2 fig') = curve_keys (axes_2 fig) @ [(linestyle, country)]"
proof -
  obtain ps where ps: "lookup country = Inr ps" "coeff_a ps \<noteq> 0" "coeff_b ps \<noteq> 0"
    using catalog_nonzero [OF assms(2)] by blast
  obtain f where f: "build_function (function_type inp) ps = Some f"
    using build_function_three_families(1) [OF assms(1)] by blast
  have np: "function_type inp \<noteq> ''Polynomial (Cost Structure)''"
    using assms(1) by (rule build_function_three_families(2))
  obtain fig' where fig': "plot_country inp solve country linestyle fig = Inr fig'"
    and c: "curves (axes_0 fig') = curves (axes_0 fig) @
              [Line2D (x_vals inp) (map (np_eval f) (x_vals inp)) linestyle country]"
           "curves (axes_1 fig') = curves (axes_1 fig) @
              [Line2D (x_vals inp) (map (np_eval (diff f)) (x_vals inp)) linestyle country]"
           "curves (axes_2 fig') = curves (axes_2 fig) @
              [Line2D (x_vals inp) (map (np_eval (diff (diff f))) (x_vals inp)) linestyle country]"
    using plot_country_draws [OF ps(1) f np ps(2,3)] by blast
  have "curve_keys (curves (axes_0 fig')) = curve_keys (axes_0 fig) @ [(linestyle, country)]"
       "curve_keys (curves (axes_1 fig')) = curve_keys (axes_1 fig) @ [(linestyle, country)]"
       "curve_keys (curves (axes_2 fig')) = curve_keys (axes_2 fig) @ [(linestyle, country)]"
    unfolding c by (simp_all add: curve_keys_append curve_keys_curves)
  with fig' show ?thesis
    by (auto simp: curve_keys_curves)
qed

lemma script_three_families:
  assumes "function_type inp \<in> {''Exponential (Market Growth)'',
             ''Logarithmic (Diminishing Returns)'', ''Trigonometric (Seasonality)''}"
    and "country_1 inp \<in> set countries"
    and "comparison_country inp \<in> set countries"
  shows "\<exists>fig. script inp solve = Inr fig \<and>
     (if comparison_mode inp \<and> comparison_country inp \<noteq> country_1 inp then
        curve_keys (axes_0 fig) = [(''-'', country_1 inp), (''--'', comparison_country inp)] \<and>
        curve_keys (axes_1 fig) = [(''-'', country_1 inp), (''--'', comparison_country inp)] \<and>
        curve_keys (axes_2 fig) = [(''-'', country_1 inp), (''--'', comparison_country inp)]
      else
        curve_keys (axes_0 fig) = [(''-'', country_1 inp)] \<and>
        curve_keys (axes_1 fig) = [(''-'', country_1 inp)] \<and>
        curve_keys (axes_2 fig) = [(''-'', country_1 inp)])"
proof -
  obtain fig1 where fig1: "plot_country inp solve (country_1 inp) ''-'' subplots = Inr fig1"
    and k1: "curve_keys (axes_0 fig1) = [(''-'', country_1 inp)]"
            "curve_keys (axes_1 fig1) = [(''-'', country_1 inp)]"
            "curve_keys (axes_2 fig1) = [(''-'', country_1 inp)]"
    using plot_country_curve_keys [OF assms(1,2), of solve "''-''" subplots]
    by (auto simp: subplots_def)
  obtain fig2 where fig2: "plot_country inp solve (comparison_country inp) ''--'' fig1 = Inr fig2"
    and k2: "curve_keys (axes_0 fig2) = curve_keys (axes_0 fig1) @ [(''--'', comparison_country inp)]"
            "curve_keys (axes_1 fig2) = curve_keys (axes_1 fig1) @ [(''--'', comparison_country inp)]"
            "curve_keys (axes_2 fig2) = curve_keys (axes_2 fig1) @ [(''--'', comparison_country inp)]"
    using plot_country_curve_keys [OF assms(1,3), of solve "''--''" fig1] by blast
  show ?thesis
    using fig1 fig2 k1 k2 by (auto simp: script_def country_2_def)
qed

lemma plot_country_markers:
  assumes "lookup country = Inr ps"
    and "build_function (function_type inp) ps = Some f"
    and "function_type inp \<noteq> ''Polynomial (Cost Structure)''"
    and "coeff_a ps \<noteq> 0" and "coeff_b ps \<noteq> 0"
    and "solve (diff f) = Inr cps" and "\<forall>cp \<in> set cps. \<not> raises cp"
    and "solve (diff (diff f)) = Inr ips" and "\<forall>ip \<in> set ips. \<not> raises ip"
  shows "\<exists>fig'. plot_country inp solve country linestyle fig = Inr fig' \<and>
     vlines (axes_0 fig') = vlines (axes_0 fig) @
        accepted_values (xmin inp) (xmax inp) cps @ accepted_values (xmin inp) (xmax inp) ips \<and>
     vlines (axes_1 fig') = vlines (axes_1 fig) @ accepted_values (xmin inp) (xmax inp) cps \<and>
     vlines (axes_2 fig') = vlines (axes_2 fig) @ accepted_values (xmin inp) (xmax inp) ips"
proof -
  let ?xs = "x_vals inp"
  let ?fig1 = "\<lparr>axes_0 = axes_0 fig @ [Line2D ?xs (map (np_eval f) ?xs) linestyle country],
                axes_1 = axes_1 fig @ [Line2D ?xs (map (np_eval (diff f)) ?xs) linestyle country],
                axes_2 = axes_2 fig @ [Line2D ?xs (map (np_eval (diff (diff f))) ?xs) linestyle country]\<rparr>"
  let ?vs = "accepted_values (xmin inp) (xmax inp) cps"
  let ?ws = "accepted_values (xmin inp) (xmax inp) ips"
  have fx: "free_x f" "free_x (diff f)" "free_x (diff (diff f))"
    using three_families_free_x [OF assms(2,3,4,5)] by simp_all
  have "plot_country inp solve country linestyle fig =
          Inr (inflection_markers ?ws (critical_markers ?vs ?fig1))"
    using assms(1,2,6,7,8,9) fx
    by (simp add: plot_country_def derivative_pair_def Let_def lambdify_def plot_Array
          mark_critical_points_roots mark_inflection_points_roots takeWhile_all)
  then show ?thesis
    by (simp add: vlines_inflection_markers vlines_critical_markers vlines_append)
qed


text \<open>
  C7. The samples are 1000 evenly spaced points from \<open>xmin\<close> to \<open>xmax\<close>
  (\<open>x_vals_samples\<close>), and for the exponential, logarithmic and trigonometric families each
  of the three curves has one value per sample (\<open>plot_country_draws\<close>). For the polynomial
  family the claim fails: the second derivative is the constant \<open>2 * a\<close>, its lambdified
  function returns a scalar and not an array of 1000 values, and drawing it against the 1000
  samples raises \<open>ValueError\<close>. Here for Spain and the default range.
\<close>

theorem polynomial_second_derivative_scalar:
  "lookup Spain = Inr \<lparr>coeff_a = 1.2, coeff_b = 0.45, coeff_c = 3\<rparr> \<and>
   build_function ''Polynomial (Cost Structure)'' \<lparr>coeff_a = 1.2, coeff_b = 0.45, coeff_c = 3\<rparr> =
     Some (Add (Add (Mul (Num 1.2) (Pow X 2)) (Mul (Num 0.45) X)) (Num 3)) \<and>
   derivative_pair (Add (Add (Mul (Num 1.2) (Pow X 2)) (Mul (Num 0.45) X)) (Num 3)) =
     (Add (Mul (Num 2.4) X) (Num 0.45), Num 2.4) \<and>
   lambdify (Num 2.4)
     (x_vals \<lparr>comparison_mode = False, country_1 = Spain, comparison_country = Italy,
              function_type = ''Polynomial (Cost Structure)'', xmin = 0.1, xmax = 5.0\<rparr>) =
     Scalar (Finite 2.4) \<and>
   plot_country
     \<lparr>comparison_mode = False, country_1 = Spain, comparison_country = Italy,
      function_type = ''Polynomial (Cost Structure)'', xmin = 0.1, xmax = 5.0\<rparr>
     solve Spain ''-'' subplots = Inl ValueError \<and>
   script
     \<lparr>comparison_mode = False, country_1 = Spain, comparison_country = Italy,
      function_type = ''Polynomial (Cost Structure)'', xmin = 0.1, xmax = 5.0\<rparr>
     solve = Inl ValueError"
proof -
  let ?inp = "\<lparr>comparison_mode = False, country_1 = Spain, comparison_country = Italy,
      function_type = ''Polynomial (Cost Structure)'', xmin = 0.1, xmax = 5.0\<rparr>"
  have p: "derivative_pair (Add (Add (Mul (Num 1.2) (Pow X 2)) (Mul (Num 0.45) X)) (Num 3)) =
     (Add (Mul (Num 2.4) X) (Num 0.45), Num 2.4)"
    by (simp add: derivative_pair_def Let_def add_def mul_def pow_def)
  have l: "lambdify (Num 2.4) (x_vals ?inp) = Scalar (Finite 2.4)"
    by (simp add: lambdify_def)
  have s: "lookup Spain = Inr \<lparr>coeff_a = 1.2, coeff_b = 0.45, coeff_c = 3\<rparr>"
    by (simp add: lookup_def country_params_def)
  have b: "build_function ''Polynomial (Cost Structure)'' \<lparr>coeff_a = 1.2, coeff_b = 0.45, coeff_c = 3\<rparr> =
     Some (Add (Add (Mul (Num 1.2) (Pow X 2)) (Mul (Num 0.45) X)) (Num 3))"
    by (simp add: build_function_def Let_def add_def mul_def pow_def)
  have c: "plot_country ?inp solve Spain ''-'' subplots = Inl ValueError"
    by (rule polynomial_raises [OF _ s]) simp
  then have "script ?inp solve = Inl ValueError"
    by (simp add: script_def)
  with s b p l c show ?thesis by blast
qed

text \<open>
  C9. For the exponential, logarithmic and trigonometric families the script draws one
  solid curve per panel when the two countries are equal or comparison mode is off, and a
  second, dashed curve for the comparison country when they differ
  (\<open>script_three_families\<close>). For the polynomial family the claim fails: the pass for the
  primary country raises \<open>ValueError\<close> at the curve of the second derivative, so the guarded
  second pass is never reached and no curve of the comparison country is drawn. Here in
  comparison mode for Spain and Italy.
\<close>

theorem polynomial_comparison_not_drawn:
  "country_2 \<lparr>comparison_mode = True, country_1 = Spain, comparison_country = Italy,
      function_type = ''Polynomial (Cost Structure)'', xmin = 0.1, xmax = 5.0\<rparr> = Some Italy \<and>
   Italy \<noteq> Spain \<and>
   script
     \<lparr>comparison_mode = True, country_1 = Spain, comparison_country = Italy,
      function_type = ''Polynomial (Cost Structure)'', xmin = 0.1, xmax = 5.0\<rparr>
     solve = Inl ValueError"
proof -
  let ?inp = "\<lparr>comparison_mode = True, country_1 = Spain, comparison_country = Italy,
      function_type = ''Polynomial (Cost Structure)'', xmin = 0.1, xmax = 5.0\<rparr>"
  have s: "lookup Spain = Inr \<lparr>coeff_a = 1.2, coeff_b = 0.45, coeff_c = 3\<rparr>"
    by (simp add: lookup_def country_params_def)
  have "plot_country ?inp solve Spain ''-'' subplots = Inl ValueError"
    by (rule polynomial_raises [OF _ s]) simp
  then have "script ?inp solve = Inl ValueError"
    by (simp add: script_def)
  moreover have "Italy \<noteq> Spain"
    by (simp add: Italy_def Spain_def)
  ultimately show ?thesis
    by (simp add: country_2_def)
qed

end
